theory Spec2Isabelle
  imports Main
begin

section \<open>The logger package: configuration, encoders, sinks and cores\<close>

text \<open>
  A shallow embedding of the Go package \<open>logger\<close>: \<open>ZapConfig\<close> and its methods
  \<open>EncoderConfig\<close>, \<open>LevelEncoder\<close>, \<open>TimeEncoder\<close>, and the functions \<open>initLogger\<close>,
  \<open>setupCores\<close>, \<open>getLogWriter\<close> and \<open>pathExists\<close>.

  The package calls three libraries. What the development uses of them is written out:
  \<^item> \<open>go.uber.org/zap/zapcore\<close>: the seven levels, \<open>Level.String\<close>, \<open>Level.CapitalString\<close>,
    the four stock level encoders, \<open>NewCore\<close>, \<open>NewTee\<close> and the rule that a tee hands an
    entry to each of its cores whose level enabler accepts the entry's level;
  \<^item> \<open>os\<close>: \<open>Stat\<close>, \<open>Mkdir\<close> and \<open>OpenFile\<close>. Their outcomes are not computed here: they are
    read from an environment that answers each call from the calls made so far, and each
    call is appended to a trace, so that a theorem about \<open>initLogger\<close> holds whatever the
    file system does and can say which calls were made;
  \<^item> \<open>path/filepath\<close>: \<open>Join\<close>, a parameter of the environment.
\<close>

subsection \<open>zapcore levels\<close>

text \<open>
  \<open>zapcore.Level\<close> is an \<open>int8\<close> with seven named values, from \<open>DebugLevel = -1\<close> to
  \<open>FatalLevel = 5\<close>. The package builds its cores from the named values and its emit
  functions log at named values only, so a level is one of the seven.
\<close>

datatype zapcore_Level =
  DebugLevel | InfoLevel | WarnLevel | ErrorLevel | DPanicLevel | PanicLevel | FatalLevel

text \<open>\<open>Level.String\<close> of zapcore: the lowercase name.\<close>

fun Level_String :: "zapcore_Level \<Rightarrow> string" where
  "Level_String DebugLevel = ''debug''"
| "Level_String InfoLevel = ''info''"
| "Level_String WarnLevel = ''warn''"
| "Level_String ErrorLevel = ''error''"
| "Level_String DPanicLevel = ''dpanic''"
| "Level_String PanicLevel = ''panic''"
| "Level_String FatalLevel = ''fatal''"

text \<open>\<open>Level.CapitalString\<close> of zapcore: the uppercase name.\<close>

fun Level_CapitalString :: "zapcore_Level \<Rightarrow> string" where
  "Level_CapitalString DebugLevel = ''DEBUG''"
| "Level_CapitalString InfoLevel = ''INFO''"
| "Level_CapitalString WarnLevel = ''WARN''"
| "Level_CapitalString ErrorLevel = ''ERROR''"
| "Level_CapitalString DPanicLevel = ''DPANIC''"
| "Level_CapitalString PanicLevel = ''PANIC''"
| "Level_CapitalString FatalLevel = ''FATAL''"

subsection \<open>ZapConfig\<close>

record ZapConfig =
  Level :: string
  Prefix :: string
  Format :: string
  Director :: string
  EncodeLevel :: string
  StacktraceKey :: string
  ShowLine :: bool
  LogInConsole :: bool
  RetentionDay :: int
  CustomLevelEncoder :: bool

subsection \<open>Encoder configuration\<close>

text \<open>
  A level encoder is one of zapcore's four stock encoders or a function of the package's
  own; \<open>LevelEncoderFunc f\<close> stands for a Go function that appends the string \<open>f level\<close>.
\<close>

datatype zapcore_LevelEncoder =
  LowercaseLevelEncoder
| CapitalLevelEncoder
| LowercaseColorLevelEncoder
| CapitalColorLevelEncoder
| LevelEncoderFunc "zapcore_Level \<Rightarrow> string"

text \<open>
  The time encoder of the package appends \<open>t.Format(layout)\<close>; it is kept as its layout.
\<close>

datatype zapcore_TimeEncoder = TimeFormatEncoder string

datatype zapcore_DurationEncoder = SecondsDurationEncoder

datatype zapcore_CallerEncoder = ShortCallerEncoder

datatype zapcore_NameEncoder = FullNameEncoder

record zapcore_EncoderConfig =
  TimeKey :: string
  LevelKey :: string
  NameKey :: string
  CallerKey :: string
  MessageKey :: string
  StacktraceKey_enc :: string
  LineEnding :: string
  EncodeLevel_enc :: zapcore_LevelEncoder
  EncodeTime :: zapcore_TimeEncoder
  EncodeDuration :: zapcore_DurationEncoder
  EncodeCaller :: zapcore_CallerEncoder
  EncodeName :: zapcore_NameEncoder

definition DefaultLineEnding :: string where
  "DefaultLineEnding = [CHR 0x0A]"

text \<open>
  zapcore's colours: magenta for debug, blue for info, yellow for warn, red from error
  up; a coloured level is wrapped in the ANSI escape sequence of its colour.
\<close>

fun levelColor :: "zapcore_Level \<Rightarrow> string" where
  "levelColor DebugLevel = ''35''"
| "levelColor InfoLevel = ''34''"
| "levelColor WarnLevel = ''33''"
| "levelColor l = ''31''"

definition colorAdd :: "zapcore_Level \<Rightarrow> string \<Rightarrow> string" where
  "colorAdd l s = CHR 0x1B # ''['' @ levelColor l @ ''m'' @ s @ CHR 0x1B # ''[0m''"

text \<open>The string a level encoder appends for a level.\<close>

fun renderLevel :: "zapcore_LevelEncoder \<Rightarrow> zapcore_Level \<Rightarrow> string" where
  "renderLevel LowercaseLevelEncoder l = Level_String l"
| "renderLevel CapitalLevelEncoder l = Level_CapitalString l"
| "renderLevel LowercaseColorLevelEncoder l = colorAdd l (Level_String l)"
| "renderLevel CapitalColorLevelEncoder l = colorAdd l (Level_CapitalString l)"
| "renderLevel (LevelEncoderFunc f) l = f l"

text \<open>
  \<open>LevelEncoder\<close>: the custom flag first, then the switch on \<open>EncodeLevel\<close> with its
  default branch. The custom encoder appends \<open>fmt.Sprintf("[%s]", level.CapitalString())\<close>.
\<close>

definition LevelEncoder :: "ZapConfig \<Rightarrow> zapcore_LevelEncoder" where
  "LevelEncoder c =
     (if CustomLevelEncoder c
      then LevelEncoderFunc (\<lambda>level. ''['' @ Level_CapitalString level @ '']'')
      else if EncodeLevel c = ''lowercase'' then LowercaseLevelEncoder
      else if EncodeLevel c = ''capital'' then CapitalLevelEncoder
      else if EncodeLevel c = ''lowercaseColor'' then LowercaseColorLevelEncoder
      else if EncodeLevel c = ''capitalColor'' then CapitalColorLevelEncoder
      else CapitalLevelEncoder)"

definition TimeEncoder :: "ZapConfig \<Rightarrow> zapcore_TimeEncoder" where
  "TimeEncoder c = TimeFormatEncoder ''2006-01-02 15:04:05.000''"

definition EncoderConfig :: "ZapConfig \<Rightarrow> zapcore_EncoderConfig" where
  "EncoderConfig c =
     \<lparr> TimeKey = ''time'',
       LevelKey = ''level'',
       NameKey = ''logger'',
       CallerKey = ''caller'',
       MessageKey = ''msg'',
       StacktraceKey_enc = StacktraceKey c,
       LineEnding = DefaultLineEnding,
       EncodeLevel_enc = LevelEncoder c,
       EncodeTime = TimeEncoder c,
       EncodeDuration = SecondsDurationEncoder,
       EncodeCaller = ShortCallerEncoder,
       EncodeName = FullNameEncoder \<rparr>"

datatype zapcore_Encoder =
  NewJSONEncoder zapcore_EncoderConfig
| NewConsoleEncoder zapcore_EncoderConfig

fun encoderConfigOf :: "zapcore_Encoder \<Rightarrow> zapcore_EncoderConfig" where
  "encoderConfigOf (NewJSONEncoder ec) = ec"
| "encoderConfigOf (NewConsoleEncoder ec) = ec"

subsection \<open>The operating system\<close>

datatype open_flag =
  O_RDONLY | O_WRONLY | O_RDWR | O_APPEND | O_CREATE | O_EXCL | O_SYNC | O_TRUNC

text \<open>
  The calls the package makes, with their arguments. A set of flags stands for the
  flags joined by \<open>|\<close>; a permission is the number the octal literal denotes.
\<close>

datatype call =
  Stat string
| Mkdir string nat
| OpenFile string "open_flag set" nat
| Printf string

datatype oserr = ErrNotExist | ErrExist | ErrPermission | ErrOther string

definition IsNotExist :: "oserr \<Rightarrow> bool" where
  "IsNotExist err = (err = ErrNotExist)"

definition ModePerm :: nat where
  "ModePerm = 7 * 64 + 7 * 8 + 7"

text \<open>
  An open file: one of the three standard streams of the process, or the result of a
  successful \<open>OpenFile\<close> with the arguments of that call.
\<close>

datatype File = Stdin | Stdout | Stderr | Opened string "open_flag set" nat

datatype zapcore_WriteSyncer = AddSync File

text \<open>
  Go before 1.22 has one loop variable for the whole \<open>for\<close> statement, Go 1.22 and later
  one per iteration; the \<open>go\<close> directive of the module, which is not among the sources,
  chooses. A function literal that mentions the loop variable reads, when it is called,
  the value that variable holds then.
\<close>

datatype loopvar = PerIteration | PerLoop

record env =
  loopvar_scope :: loopvar
  os :: "call list \<Rightarrow> call \<Rightarrow> oserr option"
  filepath_Join :: "string \<Rightarrow> string \<Rightarrow> string"

text \<open>One call: its outcome is the environment's, and the call joins the trace.\<close>

definition sys :: "env \<Rightarrow> call \<Rightarrow> call list \<Rightarrow> oserr option \<times> call list" where
  "sys e c tr = (os e tr c, tr @ [c])"

subsection \<open>Cores and loggers\<close>

record zapcore_Core =
  enc :: zapcore_Encoder
  out :: zapcore_WriteSyncer
  enab :: "zapcore_Level \<Rightarrow> bool"

definition NewCore ::
  "zapcore_Encoder \<Rightarrow> zapcore_WriteSyncer \<Rightarrow> (zapcore_Level \<Rightarrow> bool) \<Rightarrow> zapcore_Core" where
  "NewCore encoder writer enabler = \<lparr> enc = encoder, out = writer, enab = enabler \<rparr>"

definition LevelEnablerFunc :: "(zapcore_Level \<Rightarrow> bool) \<Rightarrow> (zapcore_Level \<Rightarrow> bool)" where
  "LevelEnablerFunc f = f"

definition NewTee :: "zapcore_Core list \<Rightarrow> zapcore_Core list" where
  "NewTee cs = cs"

datatype zap_Option = AddCaller

record zap_Logger =
  core :: "zapcore_Core list"
  addCaller :: bool

definition zap_New :: "zapcore_Core list \<Rightarrow> zap_Option list \<Rightarrow> zap_Logger" where
  "zap_New c opts = \<lparr> core = c, addCaller = (AddCaller \<in> set opts) \<rparr>"

datatype zap_SugaredLogger = Sugar zap_Logger

fun base :: "zap_SugaredLogger \<Rightarrow> zap_Logger" where
  "base (Sugar l) = l"

text \<open>
  The tee's \<open>Check\<close>: the cores an entry of level \<open>lvl\<close> is written to are those whose
  enabler accepts \<open>lvl\<close>, in the tee's order.
\<close>

definition writtenTo :: "zap_Logger \<Rightarrow> zapcore_Level \<Rightarrow> zapcore_Core list" where
  "writtenTo lg lvl = filter (\<lambda>c. enab c lvl) (core lg)"

text \<open>
  An entry carries its caller when the logger was built with \<open>AddCaller\<close>, and an encoder
  renders the caller of an entry that carries one when its \<open>CallerKey\<close> is not empty.
\<close>

definition rendersCaller :: "zap_Logger \<Rightarrow> zapcore_Core \<Rightarrow> bool" where
  "rendersCaller lg c = (addCaller lg \<and> CallerKey (encoderConfigOf (enc c)) \<noteq> [])"

subsection \<open>Initialisation\<close>

text \<open>
  The two errors the package makes with \<open>fmt.Errorf\<close>:
  \<open>"failed to create directory %s: %v"\<close> with the directory and the error of \<open>Mkdir\<close>, and
  \<open>"failed to create log file for level %s: %v"\<close> with the name of the level and the error
  of \<open>OpenFile\<close>. They are kept as their arguments.
\<close>

datatype error =
  FailedToCreateDirectory string oserr
| FailedToCreateLogFile string oserr

text \<open>
  What initialisation changes: the calls made so far, and the package variable
  \<open>sugaredLogger\<close>, \<open>nil\<close> until a logger is installed.
\<close>

record state =
  trace :: "call list"
  sugaredLogger :: "zap_SugaredLogger option"

definition pathExists :: "env \<Rightarrow> string \<Rightarrow> call list \<Rightarrow> (bool \<times> oserr option) \<times> call list" where
  "pathExists e path tr =
     (case sys e (Stat path) tr of
        (None, tr') \<Rightarrow> ((True, None), tr')
      | (Some err, tr') \<Rightarrow>
          if IsNotExist err then ((False, None), tr') else ((False, Some err), tr'))"

definition getLogWriter ::
  "env \<Rightarrow> ZapConfig \<Rightarrow> string \<Rightarrow> call list \<Rightarrow> (oserr + zapcore_WriteSyncer) \<times> call list" where
  "getLogWriter e cfg filename tr =
     (let filepath = filepath_Join e (Director cfg) filename;
          flag = {O_APPEND} \<union> {O_CREATE} \<union> {O_WRONLY};
          perm = 6 * 64 + 4 * 8 + 4
      in case sys e (OpenFile filepath flag perm) tr of
           (Some err, tr') \<Rightarrow> (Inl err, tr')
         | (None, tr') \<Rightarrow> (Inr (AddSync (Opened filepath flag perm)), tr'))"

definition levels :: "zapcore_Level list" where
  "levels = [DebugLevel, InfoLevel, WarnLevel, ErrorLevel, DPanicLevel, PanicLevel, FatalLevel]"

text \<open>
  The value of the loop variable \<open>level\<close> that the enabler built in the iteration for
  \<open>level\<close> compares with once the loop has run through \<open>ls\<close>.
\<close>

fun captured :: "loopvar \<Rightarrow> zapcore_Level list \<Rightarrow> zapcore_Level \<Rightarrow> zapcore_Level" where
  "captured PerIteration ls level = level"
| "captured PerLoop ls level = last ls"

text \<open>
  The \<open>for\<close> loop of \<open>setupCores\<close> over the levels still to visit; \<open>cores\<close> is the slice
  appended to so far. A failed \<open>getLogWriter\<close> returns at once.
\<close>

fun setupCores_loop ::
  "env \<Rightarrow> ZapConfig \<Rightarrow> zapcore_Encoder \<Rightarrow> zapcore_Level list \<Rightarrow> zapcore_Core list
     \<Rightarrow> call list \<Rightarrow> (error + zapcore_Core list) \<times> call list" where
  "setupCores_loop e cfg encoder [] cores tr = (Inr cores, tr)"
| "setupCores_loop e cfg encoder (level # rest) cores tr =
     (case getLogWriter e cfg (Level_String level @ ''.log'') tr of
        (Inl err, tr') \<Rightarrow> (Inl (FailedToCreateLogFile (Level_String level) err), tr')
      | (Inr writer, tr') \<Rightarrow>
          setupCores_loop e cfg encoder rest
            (cores @ [NewCore encoder writer
               (LevelEnablerFunc (\<lambda>lvl. lvl = captured (loopvar_scope e) levels level))])
            tr')"

definition setupCores ::
  "env \<Rightarrow> ZapConfig \<Rightarrow> call list \<Rightarrow> (error + zapcore_Core list) \<times> call list" where
  "setupCores e cfg tr =
     (let encoderConfig = EncoderConfig cfg;
          encoder = (if Format cfg = ''json'' then NewJSONEncoder encoderConfig
                     else NewConsoleEncoder encoderConfig)
      in setupCores_loop e cfg encoder levels [] tr)"

text \<open>
  \<open>initLogger\<close>. The error of \<open>pathExists\<close> is bound to \<open>_\<close>; the first \<open>case\<close> is the
  \<open>if !ok\<close> block, whose \<open>Mkdir\<close> error returns early; the logger is assigned only after
  \<open>setupCores\<close> has returned without error.
\<close>

definition initLogger :: "env \<Rightarrow> ZapConfig \<Rightarrow> state \<Rightarrow> error option \<times> state" where
  "initLogger e cfg st =
     (case pathExists e (Director cfg) (trace st) of
        ((ok, _), tr1) \<Rightarrow>
          (case (if \<not> ok
                 then sys e (Mkdir (Director cfg) ModePerm)
                        (tr1 @ [Printf (''create '' @ Director cfg @ '' directory'' @ [CHR 0x0A])])
                 else (None, tr1)) of
             (Some err, tr2) \<Rightarrow>
               (Some (FailedToCreateDirectory (Director cfg) err), st\<lparr>trace := tr2\<rparr>)
           | (None, tr2) \<Rightarrow>
               (case setupCores e cfg tr2 of
                  (Inl err, tr3) \<Rightarrow> (Some err, st\<lparr>trace := tr3\<rparr>)
                | (Inr cores, tr3) \<Rightarrow>
                    (None, st\<lparr>trace := tr3,
                              sugaredLogger := Some (Sugar (zap_New (NewTee cores) [AddCaller]))\<rparr>))))"

section \<open>Vocabulary for the statements\<close>

text \<open>
  The path, the \<open>OpenFile\<close> call and the sink that \<open>getLogWriter\<close> makes for the file
  name \<open>level.String()+".log"\<close>; \<open>420\<close> is the octal \<open>0644\<close>.
\<close>

definition logPath :: "env \<Rightarrow> ZapConfig \<Rightarrow> zapcore_Level \<Rightarrow> string" where
  "logPath e cfg l = filepath_Join e (Director cfg) (Level_String l @ ''.log'')"

definition openCall :: "env \<Rightarrow> ZapConfig \<Rightarrow> zapcore_Level \<Rightarrow> call" where
  "openCall e cfg l = OpenFile (logPath e cfg l) {O_APPEND, O_CREATE, O_WRONLY} 420"

definition sinkOf :: "env \<Rightarrow> ZapConfig \<Rightarrow> zapcore_Level \<Rightarrow> zapcore_WriteSyncer" where
  "sinkOf e cfg l = AddSync (Opened (logPath e cfg l) {O_APPEND, O_CREATE, O_WRONLY} 420)"

definition coreFor :: "env \<Rightarrow> ZapConfig \<Rightarrow> zapcore_Encoder \<Rightarrow> zapcore_Level \<Rightarrow> zapcore_Core" where
  "coreFor e cfg encoder l =
     NewCore encoder (sinkOf e cfg l) (\<lambda>lvl. lvl = captured (loopvar_scope e) levels l)"

text \<open>
  The environment lets the log files of the levels \<open>ls\<close> be opened one after the other,
  starting from the trace \<open>tr\<close>.
\<close>

fun opensSucceed :: "env \<Rightarrow> ZapConfig \<Rightarrow> call list \<Rightarrow> zapcore_Level list \<Rightarrow> bool" where
  "opensSucceed e cfg tr [] = True"
| "opensSucceed e cfg tr (l # ls) =
     (os e tr (openCall e cfg l) = None \<and> opensSucceed e cfg (tr @ [openCall e cfg l]) ls)"

text \<open>The encoder \<open>setupCores\<close> chooses from \<open>Format\<close>.\<close>

definition chosenEncoder :: "ZapConfig \<Rightarrow> zapcore_Encoder" where
  "chosenEncoder cfg =
     (if Format cfg = ''json'' then NewJSONEncoder (EncoderConfig cfg)
      else NewConsoleEncoder (EncoderConfig cfg))"

text \<open>
  The part of \<open>initLogger\<close> after the directory has been dealt with, started on the
  trace \<open>tr\<close>.
\<close>

definition install :: "env \<Rightarrow> ZapConfig \<Rightarrow> state \<Rightarrow> call list \<Rightarrow> error option \<times> state" where
  "install e cfg st tr =
     (case setupCores e cfg tr of
        (Inl err, tr3) \<Rightarrow> (Some err, st\<lparr>trace := tr3\<rparr>)
      | (Inr cores, tr3) \<Rightarrow>
          (None, st\<lparr>trace := tr3,
                    sugaredLogger := Some (Sugar (zap_New (NewTee cores) [AddCaller]))\<rparr>))"

text \<open>The message \<open>initLogger\<close> prints before it creates the directory.\<close>

definition createMsg :: "ZapConfig \<Rightarrow> call" where
  "createMsg cfg = Printf (''create '' @ Director cfg @ '' directory'' @ [CHR 0x0A])"

definition isMkdir :: "call \<Rightarrow> bool" where
  "isMkdir c = (case c of Mkdir p m \<Rightarrow> True | _ \<Rightarrow> False)"

text \<open>
  The environment \<open>e\<close>, except that \<open>Stat path\<close> after the trace \<open>tr\<close> answers that the
  path does not exist.
\<close>

definition statAbsent :: "env \<Rightarrow> call list \<Rightarrow> string \<Rightarrow> env" where
  "statAbsent e tr path =
     e\<lparr>os := (\<lambda>h c. if h = tr \<and> c = Stat path then Some ErrNotExist else os e h c)\<rparr>"

text \<open>
  The cores of the installed logger, and those of them an entry of level \<open>lvl\<close> is
  written to; none while no logger is installed.
\<close>

definition installedCores :: "state \<Rightarrow> zapcore_Core list" where
  "installedCores st = (case sugaredLogger st of None \<Rightarrow> [] | Some s \<Rightarrow> core (base s))"


subsection \<open>Sample environments, configuration and state\<close>

text \<open>
  Five file systems: one where every call succeeds (the directory is there), one where
  the directory is missing and can be made, one where it is missing and cannot be made,
  one where \<open>Stat\<close> is refused, and one where \<open>logs/warn.log\<close> cannot be opened.
\<close>

fun os_present :: "call list \<Rightarrow> call \<Rightarrow> oserr option" where
  "os_present tr c = None"

fun os_absent :: "call list \<Rightarrow> call \<Rightarrow> oserr option" where
  "os_absent tr (Stat p) = Some ErrNotExist"
| "os_absent tr c = None"

fun os_no_mkdir :: "call list \<Rightarrow> call \<Rightarrow> oserr option" where
  "os_no_mkdir tr (Stat p) = Some ErrNotExist"
| "os_no_mkdir tr (Mkdir p m) = Some ErrPermission"
| "os_no_mkdir tr c = None"

fun os_no_stat :: "call list \<Rightarrow> call \<Rightarrow> oserr option" where
  "os_no_stat tr (Stat p) = Some ErrPermission"
| "os_no_stat tr c = None"

fun os_no_warn :: "call list \<Rightarrow> call \<Rightarrow> oserr option" where
  "os_no_warn tr (OpenFile p f m) = (if p = ''logs/warn.log'' then Some ErrPermission else None)"
| "os_no_warn tr c = None"

definition unixJoin :: "string \<Rightarrow> string \<Rightarrow> string" where
  "unixJoin d f = d @ ''/'' @ f"

definition sampleEnv :: "loopvar \<Rightarrow> (call list \<Rightarrow> call \<Rightarrow> oserr option) \<Rightarrow> env" where
  "sampleEnv scope f = \<lparr> loopvar_scope = scope, os = f, filepath_Join = unixJoin \<rparr>"

definition sampleCfg :: ZapConfig where
  "sampleCfg =
     \<lparr> Level = ''info'', Prefix = ''[redis-manager]'', Format = ''console'',
       Director = ''logs'', EncodeLevel = ''lowercaseColor'', StacktraceKey = ''stacktrace'',
       ShowLine = False, LogInConsole = True, RetentionDay = 7, CustomLevelEncoder = True \<rparr>"

definition sampleState :: state where
  "sampleState = \<lparr> trace = [], sugaredLogger = None \<rparr>"

text \<open>
  A logger is installed, it has cores, and each of them renders the caller of an entry.
\<close>

definition callerRendered :: "state \<Rightarrow> bool" where
  "callerRendered st =
     (case sugaredLogger st of
        None \<Rightarrow> False
      | Some s \<Rightarrow> core (base s) \<noteq> [] \<and> list_all (rendersCaller (base s)) (core (base s)))"

text \<open>A logger installed by an earlier initialisation: no cores, no options.\<close>

definition oldLogger :: zap_SugaredLogger where
  "oldLogger = Sugar (zap_New (NewTee []) [])"

section \<open>The loop of setupCores\<close>

lemma getLogWriter_eq:
  "getLogWriter e cfg (Level_String l @ ''.log'') tr =
     (case os e tr (openCall e cfg l) of
        Some err \<Rightarrow> (Inl err, tr @ [openCall e cfg l])
      | None \<Rightarrow> (Inr (sinkOf e cfg l), tr @ [openCall e cfg l]))"
  by (simp add: getLogWriter_def sys_def openCall_def sinkOf_def logPath_def Let_def
       insert_commute split: option.splits)

lemma loop_step:
  "setupCores_loop e cfg encoder (l # ls) cores tr =
     (case os e tr (openCall e cfg l) of
        Some err \<Rightarrow> (Inl (FailedToCreateLogFile (Level_String l) err), tr @ [openCall e cfg l])
      | None \<Rightarrow> setupCores_loop e cfg encoder ls (cores @ [coreFor e cfg encoder l])
                  (tr @ [openCall e cfg l]))"
  by (simp add: getLogWriter_eq coreFor_def LevelEnablerFunc_def split: option.splits)

lemma loop_success:
  "opensSucceed e cfg tr ls \<Longrightarrow>
   setupCores_loop e cfg encoder ls cores tr =
     (Inr (cores @ map (coreFor e cfg encoder) ls), tr @ map (openCall e cfg) ls)"
proof (induction ls arbitrary: cores tr)
  case Nil
  then show ?case by simp
next
  case (Cons l ls)
  then show ?case by (simp add: loop_step del: setupCores_loop.simps)
qed

lemma loop_failure:
  "opensSucceed e cfg tr pre \<Longrightarrow>
   os e (tr @ map (openCall e cfg) pre) (openCall e cfg l) = Some oe \<Longrightarrow>
   setupCores_loop e cfg encoder (pre @ l # post) cores tr =
     (Inl (FailedToCreateLogFile (Level_String l) oe), tr @ map (openCall e cfg) (pre @ [l]))"
proof (induction pre arbitrary: cores tr)
  case Nil
  then show ?case by (simp add: loop_step del: setupCores_loop.simps)
next
  case (Cons p pre)
  then show ?case by (simp add: loop_step del: setupCores_loop.simps)
qed

lemma loop_Inr:
  "setupCores_loop e cfg encoder ls cores tr = (Inr cs, tr') \<Longrightarrow>
   opensSucceed e cfg tr ls"
proof (induction ls arbitrary: cores tr)
  case Nil
  then show ?case by simp
next
  case (Cons l ls)
  then show ?case
    by (auto simp add: loop_step simp del: setupCores_loop.simps split: option.splits)
qed

lemma loop_Inl:
  "setupCores_loop e cfg encoder ls cores tr = (Inl err, tr') \<Longrightarrow>
   \<exists>pre l post oe. ls = pre @ l # post \<and> opensSucceed e cfg tr pre \<and>
     os e (tr @ map (openCall e cfg) pre) (openCall e cfg l) = Some oe"
proof (induction ls arbitrary: cores tr)
  case Nil
  then show ?case by simp
next
  case (Cons a ls)
  show ?case
  proof (cases "os e tr (openCall e cfg a)")
    case None
    with Cons.prems have "setupCores_loop e cfg encoder ls (cores @ [coreFor e cfg encoder a])
                  (tr @ [openCall e cfg a]) = (Inl err, tr')"
      by (simp add: loop_step del: setupCores_loop.simps)
    from Cons.IH[OF this] obtain pre l post oe where
      h: "ls = pre @ l # post" "opensSucceed e cfg (tr @ [openCall e cfg a]) pre"
         "os e ((tr @ [openCall e cfg a]) @ map (openCall e cfg) pre) (openCall e cfg l) = Some oe"
      by blast
    have "a # ls = (a # pre) @ l # post" using h by simp
    moreover have "opensSucceed e cfg tr (a # pre)" using h None by simp
    moreover have "os e (tr @ map (openCall e cfg) (a # pre)) (openCall e cfg l) = Some oe"
      using h by simp
    ultimately show ?thesis by blast
  next
    case (Some oe)
    have "a # ls = [] @ a # ls" by simp
    moreover have "opensSucceed e cfg tr []" by simp
    moreover have "os e (tr @ map (openCall e cfg) []) (openCall e cfg a) = Some oe"
      using Some by simp
    ultimately show ?thesis by blast
  qed
qed

section \<open>setupCores and initLogger as a whole\<close>

lemma setupCores_Inr:
  assumes "setupCores e cfg tr = (Inr cs, tr')"
  shows "cs = map (coreFor e cfg (chosenEncoder cfg)) levels \<and> tr' = tr @ map (openCall e cfg) levels
     \<and> opensSucceed e cfg tr levels"
proof -
  from assms have h: "setupCores_loop e cfg (chosenEncoder cfg) levels [] tr = (Inr cs, tr')"
    by (simp add: setupCores_def Let_def chosenEncoder_def)
  from loop_Inr[OF h] have ok: "opensSucceed e cfg tr levels" .
  from loop_success[OF ok, of "chosenEncoder cfg" "[]"] h show ?thesis using ok by simp
qed

lemma setupCores_Inl:
  assumes "setupCores e cfg tr = (Inl err, tr')"
  shows "\<exists>pre l post oe. levels = pre @ l # post \<and> opensSucceed e cfg tr pre \<and>
     os e (tr @ map (openCall e cfg) pre) (openCall e cfg l) = Some oe \<and>
     err = FailedToCreateLogFile (Level_String l) oe \<and> tr' = tr @ map (openCall e cfg) (pre @ [l])"
proof -
  from assms have h: "setupCores_loop e cfg (chosenEncoder cfg) levels [] tr = (Inl err, tr')"
    by (simp add: setupCores_def Let_def chosenEncoder_def)
  from loop_Inl[OF h] obtain pre l post oe where
    p: "levels = pre @ l # post" "opensSucceed e cfg tr pre"
       "os e (tr @ map (openCall e cfg) pre) (openCall e cfg l) = Some oe" by blast
  from loop_failure[OF p(2) p(3), of "chosenEncoder cfg" post "[]"] h p(1)
  have "err = FailedToCreateLogFile (Level_String l) oe \<and> tr' = tr @ map (openCall e cfg) (pre @ [l])"
    by simp
  with p show ?thesis by blast
qed

lemma setupCores_success:
  "opensSucceed e cfg tr levels \<Longrightarrow>
   setupCores e cfg tr = (Inr (map (coreFor e cfg (chosenEncoder cfg)) levels), tr @ map (openCall e cfg) levels)"
  using loop_success[of e cfg tr levels "chosenEncoder cfg" "[]"]
  by (simp add: setupCores_def Let_def chosenEncoder_def)

lemma setupCores_failure:
  "levels = pre @ l # post \<Longrightarrow> opensSucceed e cfg tr pre \<Longrightarrow>
   os e (tr @ map (openCall e cfg) pre) (openCall e cfg l) = Some oe \<Longrightarrow>
   setupCores e cfg tr = (Inl (FailedToCreateLogFile (Level_String l) oe), tr @ map (openCall e cfg) (pre @ [l]))"
  using loop_failure[of e cfg tr pre l oe "chosenEncoder cfg" post "[]"]
  by (simp add: setupCores_def Let_def chosenEncoder_def)

lemma initLogger_present:
  "os e (trace st) (Stat (Director cfg)) = None \<Longrightarrow>
   initLogger e cfg st = install e cfg st (trace st @ [Stat (Director cfg)])"
  by (simp add: initLogger_def pathExists_def sys_def install_def)

lemma initLogger_absent:
  "os e (trace st) (Stat (Director cfg)) = Some err \<Longrightarrow>
   initLogger e cfg st =
     (case os e (trace st @ [Stat (Director cfg), createMsg cfg]) (Mkdir (Director cfg) ModePerm) of
        Some oe \<Rightarrow> (Some (FailedToCreateDirectory (Director cfg) oe),
           st\<lparr>trace := trace st @ [Stat (Director cfg), createMsg cfg, Mkdir (Director cfg) ModePerm]\<rparr>)
      | None \<Rightarrow> install e cfg st
           (trace st @ [Stat (Director cfg), createMsg cfg, Mkdir (Director cfg) ModePerm]))"
  by (simp add: initLogger_def pathExists_def sys_def install_def createMsg_def split: option.splits)

lemma initLogger_None:
  assumes "initLogger e cfg st = (None, st')"
  shows "\<exists>tr2 cs tr3. setupCores e cfg tr2 = (Inr cs, tr3) \<and>
      st' = st\<lparr>trace := tr3, sugaredLogger := Some (Sugar (zap_New (NewTee cs) [AddCaller]))\<rparr>"
proof (cases "os e (trace st) (Stat (Director cfg))")
  case None
  from assms initLogger_present[OF None] show ?thesis
    by (auto simp: install_def split: prod.splits sum.splits)
next
  case (Some err)
  from assms initLogger_absent[OF Some] show ?thesis
    by (auto simp: install_def split: prod.splits sum.splits option.splits)
qed


lemma sample_opens: "opensSucceed (sampleEnv sc os_present) cfg tr ls"
  by (induction ls arbitrary: tr) (simp_all add: sampleEnv_def)

lemma sample_opens_no_stat: "opensSucceed (sampleEnv sc os_no_stat) cfg tr ls"
  by (induction ls arbitrary: tr) (simp_all add: sampleEnv_def openCall_def)

lemma setupCores_trace:
  "\<exists>n\<le>length levels. snd (setupCores e cfg tr) = tr @ map (openCall e cfg) (take n levels)"
proof (cases "setupCores e cfg tr")
  case (Pair r tr')
  show ?thesis
  proof (cases r)
    case (Inl err)
    with Pair setupCores_Inl[of e cfg tr err tr'] obtain pre l post where
      p: "levels = pre @ l # post" "tr' = tr @ map (openCall e cfg) (pre @ [l])" by blast
    have "take (Suc (length pre)) (pre @ l # post) = pre @ [l]" by simp
    then have "take (Suc (length pre)) levels = pre @ [l]" by (simp only: p(1))
    moreover have "Suc (length pre) \<le> length (pre @ l # post)" by simp
    then have "Suc (length pre) \<le> length levels" by (simp only: p(1))
    ultimately show ?thesis using Pair p(2) by (metis snd_conv)
  next
    case (Inr cs)
    with Pair setupCores_Inr[of e cfg tr cs tr'] have "tr' = tr @ map (openCall e cfg) (take (length levels) levels)"
      by simp
    then show ?thesis using Pair by (metis order_refl snd_conv)
  qed
qed

lemma install_trace: "trace (snd (install e cfg st tr)) = snd (setupCores e cfg tr)"
  by (simp add: install_def split: prod.splits sum.splits)

lemma no_mkdir_in_opens: "filter isMkdir (map (openCall e cfg) ls) = []"
  by (induction ls) (simp_all add: isMkdir_def openCall_def)

lemma install_rest:
  "\<exists>rest. trace (snd (install e cfg st tr)) = tr @ rest \<and> filter isMkdir rest = []"
proof -
  from setupCores_trace[of e cfg tr] obtain n where
    "snd (setupCores e cfg tr) = tr @ map (openCall e cfg) (take n levels)" by blast
  then have "trace (snd (install e cfg st tr)) = tr @ map (openCall e cfg) (take n levels)"
    by (simp add: install_trace)
  then show ?thesis using no_mkdir_in_opens by blast
qed

lemma openCall_fun:
  "openCall e cfg = (\<lambda>l. OpenFile (filepath_Join e (Director cfg) (Level_String l @ ''.log''))
                                  {O_APPEND, O_CREATE, O_WRONLY} 420)"
  by (rule ext) (simp add: openCall_def logPath_def)

lemma sinkOf_fun:
  "sinkOf e cfg = (\<lambda>l. AddSync (Opened (filepath_Join e (Director cfg) (Level_String l @ ''.log''))
                                  {O_APPEND, O_CREATE, O_WRONLY} 420))"
  by (rule ext) (simp add: sinkOf_def logPath_def)

lemma loop_cfg_cong:
  "Director c1 = Director c2 \<Longrightarrow>
   setupCores_loop e c1 encoder ls cores tr = setupCores_loop e c2 encoder ls cores tr"
  by (induction ls arbitrary: cores tr)
     (simp_all add: getLogWriter_def split: prod.splits sum.splits)

lemma initLogger_cfg_cong:
  assumes "Format c1 = Format c2" "Director c1 = Director c2" "EncodeLevel c1 = EncodeLevel c2"
    "StacktraceKey c1 = StacktraceKey c2" "CustomLevelEncoder c1 = CustomLevelEncoder c2"
  shows "initLogger e c1 st = initLogger e c2 st"
proof -
  have ec: "EncoderConfig c1 = EncoderConfig c2"
    using assms by (simp add: EncoderConfig_def LevelEncoder_def TimeEncoder_def)
  have "setupCores e c1 tr = setupCores e c2 tr" for tr
    using assms(1) ec loop_cfg_cong[OF assms(2)] by (simp add: setupCores_def Let_def)
  then have s: "setupCores e c1 = setupCores e c2" by (intro ext)
  show ?thesis unfolding initLogger_def s assms(2) by (rule refl)
qed

lemma initLogger_installed:
  assumes "initLogger e cfg st = (None, st')"
  shows "sugaredLogger st' =
           Some (Sugar (zap_New (NewTee (map (coreFor e cfg (chosenEncoder cfg)) levels)) [AddCaller]))"
proof -
  from initLogger_None[OF assms] obtain tr2 cs tr3 where
    s: "setupCores e cfg tr2 = (Inr cs, tr3)" and
    st': "st' = st\<lparr>trace := tr3, sugaredLogger := Some (Sugar (zap_New (NewTee cs) [AddCaller]))\<rparr>"
    by blast
  from setupCores_Inr[OF s] st' show ?thesis by simp
qed

lemma loop_os_cong:
  assumes "loopvar_scope e1 = loopvar_scope e2" and "filepath_Join e1 = filepath_Join e2"
  shows "(\<And>ys c. os e1 (tr @ ys) c = os e2 (tr @ ys) c) \<Longrightarrow>
     setupCores_loop e1 cfg encoder ls cores tr = setupCores_loop e2 cfg encoder ls cores tr"
proof (induction ls arbitrary: cores tr)
  case Nil
  then show ?case by simp
next
  case (Cons l ls)
  have oc: "openCall e1 cfg l = openCall e2 cfg l"
    by (simp add: openCall_def logPath_def assms(2))
  have cf: "coreFor e1 cfg encoder l = coreFor e2 cfg encoder l"
    by (simp add: coreFor_def sinkOf_def logPath_def assms)
  have o: "os e1 tr (openCall e2 cfg l) = os e2 tr (openCall e2 cfg l)"
    using Cons.prems[of "[]"] by simp
  have "os e1 ((tr @ [openCall e2 cfg l]) @ ys) c = os e2 ((tr @ [openCall e2 cfg l]) @ ys) c" for ys c
    using Cons.prems[of "openCall e2 cfg l # ys" c] by simp
  from Cons.IH[OF this]
  have ih: "setupCores_loop e1 cfg encoder ls cs (tr @ [openCall e2 cfg l]) =
            setupCores_loop e2 cfg encoder ls cs (tr @ [openCall e2 cfg l])" for cs .
  show ?case
    unfolding loop_step oc cf o ih by (rule refl)
qed

lemma setupCores_os_cong:
  assumes "loopvar_scope e1 = loopvar_scope e2" and "filepath_Join e1 = filepath_Join e2"
    and "\<And>ys c. os e1 (tr @ ys) c = os e2 (tr @ ys) c"
  shows "setupCores e1 cfg tr = setupCores e2 cfg tr"
  using loop_os_cong[OF assms(1) assms(2) assms(3)] by (simp add: setupCores_def Let_def)

lemma initLogger_success:
  assumes "os e (trace st) (Stat (Director cfg)) = None \<and> tr2 = trace st @ [Stat (Director cfg)]
       \<or> os e (trace st) (Stat (Director cfg)) \<noteq> None
         \<and> os e (trace st @ [Stat (Director cfg), createMsg cfg]) (Mkdir (Director cfg) ModePerm) = None
         \<and> tr2 = trace st @ [Stat (Director cfg), createMsg cfg, Mkdir (Director cfg) ModePerm]"
    and "opensSucceed e cfg tr2 levels"
  shows "initLogger e cfg st =
           (None, st\<lparr>trace := tr2 @ map (openCall e cfg) levels,
                     sugaredLogger := Some (Sugar (zap_New
                        (NewTee (map (coreFor e cfg (chosenEncoder cfg)) levels)) [AddCaller]))\<rparr>)"
proof -
  have i: "initLogger e cfg st = install e cfg st tr2"
    using assms(1) initLogger_present[of e st cfg] initLogger_absent[of e st cfg]
    by (auto split: option.splits)
  show ?thesis unfolding i by (simp add: install_def setupCores_success[OF assms(2)])
qed


section \<open>Level rendering\<close>

text \<open>
  C4. When \<open>CustomLevelEncoder\<close> is set, the level encoder, the encoder configuration
  and every core of the logger that \<open>initLogger\<close> installs render every level as its
  uppercase name between square brackets, whatever \<open>EncodeLevel\<close> names. The logger is
  installed whenever the directory step passes and the seven log files open.
\<close>

theorem custom_level_encoder_brackets:
  assumes "CustomLevelEncoder cfg"
  shows "renderLevel (LevelEncoder cfg) l = ''['' @ Level_CapitalString l @ '']''
     \<and> renderLevel (EncodeLevel_enc (EncoderConfig cfg)) l = ''['' @ Level_CapitalString l @ '']''
     \<and> ((os e (trace st) (Stat (Director cfg)) = None \<and> tr2 = trace st @ [Stat (Director cfg)]
          \<or> os e (trace st) (Stat (Director cfg)) \<noteq> None
            \<and> os e (trace st @ [Stat (Director cfg), createMsg cfg]) (Mkdir (Director cfg) ModePerm) = None
            \<and> tr2 = trace st @ [Stat (Director cfg), createMsg cfg, Mkdir (Director cfg) ModePerm])
         \<and> opensSucceed e cfg tr2 levels \<longrightarrow>
          (\<exists>s. initLogger e cfg st =
                  (None, st\<lparr>trace := tr2 @ map (openCall e cfg) levels, sugaredLogger := Some s\<rparr>)
              \<and> length (core (base s)) = 7
              \<and> (\<forall>c\<in>set (core (base s)). \<forall>lvl.
                    renderLevel (EncodeLevel_enc (encoderConfigOf (enc c))) lvl
                      = ''['' @ Level_CapitalString lvl @ '']'')))"
proof (intro conjI impI)
  show 1: "renderLevel (LevelEncoder cfg) l = ''['' @ Level_CapitalString l @ '']''"
    using assms by (simp add: LevelEncoder_def)
  then show "renderLevel (EncodeLevel_enc (EncoderConfig cfg)) l = ''['' @ Level_CapitalString l @ '']''"
    by (simp add: EncoderConfig_def)
next
  assume h: "(os e (trace st) (Stat (Director cfg)) = None \<and> tr2 = trace st @ [Stat (Director cfg)]
          \<or> os e (trace st) (Stat (Director cfg)) \<noteq> None
            \<and> os e (trace st @ [Stat (Director cfg), createMsg cfg]) (Mkdir (Director cfg) ModePerm) = None
            \<and> tr2 = trace st @ [Stat (Director cfg), createMsg cfg, Mkdir (Director cfg) ModePerm])
         \<and> opensSucceed e cfg tr2 levels"
  let ?cs = "map (coreFor e cfg (chosenEncoder cfg)) levels"
  let ?s = "Sugar (zap_New (NewTee ?cs) [AddCaller])"
  have i: "initLogger e cfg st =
             (None, st\<lparr>trace := tr2 @ map (openCall e cfg) levels, sugaredLogger := Some ?s\<rparr>)"
    using h by (intro initLogger_success) simp_all
  have c: "core (base ?s) = ?cs" by (simp add: zap_New_def NewTee_def)
  have n: "length ?cs = 7" by (simp add: levels_def)
  have r: "\<forall>c\<in>set ?cs. \<forall>lvl.
             renderLevel (EncodeLevel_enc (encoderConfigOf (enc c))) lvl
               = ''['' @ Level_CapitalString lvl @ '']''"
    using assms
    by (auto simp add: coreFor_def NewCore_def chosenEncoder_def EncoderConfig_def LevelEncoder_def)
  from i n r have "initLogger e cfg st =
                  (None, st\<lparr>trace := tr2 @ map (openCall e cfg) levels, sugaredLogger := Some ?s\<rparr>)
              \<and> length (core (base ?s)) = 7
              \<and> (\<forall>c\<in>set (core (base ?s)). \<forall>lvl.
                    renderLevel (EncodeLevel_enc (encoderConfigOf (enc c))) lvl
                      = ''['' @ Level_CapitalString lvl @ '']'')"
    by (simp only: c simp_thms)
  then show "\<exists>s. initLogger e cfg st =
                  (None, st\<lparr>trace := tr2 @ map (openCall e cfg) levels, sugaredLogger := Some s\<rparr>)
              \<and> length (core (base s)) = 7
              \<and> (\<forall>c\<in>set (core (base s)). \<forall>lvl.
                    renderLevel (EncodeLevel_enc (encoderConfigOf (enc c))) lvl
                      = ''['' @ Level_CapitalString lvl @ '']'')"
    by (rule exI)
qed

theorem custom_level_encoder_brackets_witness:
  "CustomLevelEncoder sampleCfg \<and> EncodeLevel sampleCfg = ''lowercaseColor'' \<and>
   os (sampleEnv PerIteration os_present) (trace sampleState) (Stat (Director sampleCfg)) = None \<and>
   opensSucceed (sampleEnv PerIteration os_present) sampleCfg [Stat ''logs''] levels \<and>
   renderLevel (LevelEncoder sampleCfg) WarnLevel = ''[WARN]'' \<and>
   fst (initLogger (sampleEnv PerIteration os_present) sampleCfg sampleState) = None \<and>
   length (installedCores (snd (initLogger (sampleEnv PerIteration os_present) sampleCfg sampleState))) = 7 \<and>
   list_all (\<lambda>c. renderLevel (EncodeLevel_enc (encoderConfigOf (enc c))) WarnLevel = ''[WARN]'')
     (installedCores (snd (initLogger (sampleEnv PerIteration os_present) sampleCfg sampleState)))"
proof -
  let ?e = "sampleEnv PerIteration os_present"
  have a: "CustomLevelEncoder sampleCfg" "EncodeLevel sampleCfg = ''lowercaseColor''"
    by (simp_all add: sampleCfg_def)
  have d: "Director sampleCfg = ''logs''" by (simp add: sampleCfg_def)
  have s: "os ?e (trace sampleState) (Stat (Director sampleCfg)) = None" by (simp add: sampleEnv_def)
  have t: "[Stat ''logs''] = trace sampleState @ [Stat (Director sampleCfg)]"
    by (simp add: sampleState_def d)
  have o: "opensSucceed ?e sampleCfg [Stat ''logs''] levels" by (rule sample_opens)
  from custom_level_encoder_brackets[OF a(1), of WarnLevel ?e sampleState "[Stat ''logs'']"] s t o
  obtain sl where
    r: "renderLevel (LevelEncoder sampleCfg) WarnLevel = ''['' @ Level_CapitalString WarnLevel @ '']''"
    and i: "initLogger ?e sampleCfg sampleState =
       (None, sampleState\<lparr>trace := [Stat ''logs''] @ map (openCall ?e sampleCfg) levels,
                          sugaredLogger := Some sl\<rparr>)"
    and n: "length (core (base sl)) = 7"
    and b: "\<forall>c\<in>set (core (base sl)). \<forall>lvl.
              renderLevel (EncodeLevel_enc (encoderConfigOf (enc c))) lvl
                = ''['' @ Level_CapitalString lvl @ '']''"
    by blast
  have ic: "installedCores (snd (initLogger ?e sampleCfg sampleState)) = core (base sl)"
    by (simp add: i installedCores_def)
  have m: "list_all (\<lambda>c. renderLevel (EncodeLevel_enc (encoderConfigOf (enc c))) WarnLevel = ''[WARN]'')
             (core (base sl))"
    using b by (simp add: list_all_iff)
  show ?thesis
    unfolding ic using a s o r n m by (simp add: i)
qed

section \<open>Routing\<close>


text \<open>
  The same for every configuration and environment with one loop variable for the whole
  loop: every enabler accepts \<open>FatalLevel\<close> and nothing else.
\<close>

lemma shared_loop_variable_routing:
  assumes "initLogger e cfg st = (None, st')" and "loopvar_scope e = PerLoop"
  shows "\<exists>lg. sugaredLogger st' = Some (Sugar lg) \<and>
           (\<forall>c\<in>set (core lg). \<forall>lvl. enab c lvl = (lvl = FatalLevel)) \<and>
           writtenTo lg FatalLevel = core lg \<and> length (core lg) = 7 \<and>
           (\<forall>lvl. lvl \<noteq> FatalLevel \<longrightarrow> writtenTo lg lvl = [])"
proof -
  from initLogger_None[OF assms(1)] obtain tr2 cs tr3 where
    s: "setupCores e cfg tr2 = (Inr cs, tr3)" and
    st': "st' = st\<lparr>trace := tr3, sugaredLogger := Some (Sugar (zap_New (NewTee cs) [AddCaller]))\<rparr>"
    by blast
  let ?lg = "zap_New (NewTee cs) [AddCaller]"
  from setupCores_Inr[OF s] have cs: "cs = map (coreFor e cfg (chosenEncoder cfg)) levels" by simp
  have c: "core ?lg = map (coreFor e cfg (chosenEncoder cfg)) levels"
    by (simp add: zap_New_def NewTee_def cs)
  have l: "last levels = FatalLevel" by (simp add: levels_def)
  have 1: "sugaredLogger st' = Some (Sugar ?lg)" using st' by simp
  have 2: "\<forall>c\<in>set (core ?lg). \<forall>lvl. enab c lvl = (lvl = FatalLevel)"
    by (auto simp add: c coreFor_def NewCore_def assms(2) l)
  have 3: "writtenTo ?lg FatalLevel = core ?lg" using 2 by (simp add: writtenTo_def)
  have 4: "length (core ?lg) = 7" by (simp add: c levels_def)
  have 5: "\<forall>lvl. lvl \<noteq> FatalLevel \<longrightarrow> writtenTo ?lg lvl = []" using 2 by (simp add: writtenTo_def)
  from 1 2 3 4 5 show ?thesis by blast
qed



section \<open>The levels of the build\<close>

text \<open>
  C2, as the specification states it, fails: the loop of \<open>setupCores\<close> runs over seven
  levels, not six. In a file system where every call succeeds the build returns seven
  cores after seven \<open>OpenFile\<close> calls, and \<open>levels\<close> is not the list of six.
\<close>

theorem six_levels_counterexample:
  "\<not> isl (fst (setupCores (sampleEnv PerIteration os_present) sampleCfg [])) \<and>
   length (projr (fst (setupCores (sampleEnv PerIteration os_present) sampleCfg []))) = 7 \<and>
   length (snd (setupCores (sampleEnv PerIteration os_present) sampleCfg [])) = 7 \<and>
   levels \<noteq> [DebugLevel, InfoLevel, WarnLevel, ErrorLevel, PanicLevel, FatalLevel]"
  by (simp add: setupCores_success[OF sample_opens] levels_def)

text \<open>
  C2, amended. The build iterates the seven zapcore levels debug, info, warn, error,
  dpanic, panic, fatal in that order; a successful build has made one \<open>OpenFile\<close> call
  per level in that order and returns seven cores, the core at each position writing
  to the sink of the level at that position.
\<close>

theorem seven_levels_in_order:
  assumes "setupCores e cfg tr = (Inr cs, tr')"
  shows "levels = [DebugLevel, InfoLevel, WarnLevel, ErrorLevel, DPanicLevel, PanicLevel, FatalLevel]
     \<and> tr' = tr @ map (openCall e cfg) levels
     \<and> map out cs = map (sinkOf e cfg) levels
     \<and> length cs = 7"
proof -
  from setupCores_Inr[OF assms] have
    cs: "cs = map (coreFor e cfg (chosenEncoder cfg)) levels" and
    tr: "tr' = tr @ map (openCall e cfg) levels" by simp_all
  have "map out cs = map (sinkOf e cfg) levels" by (simp add: cs coreFor_def NewCore_def)
  moreover have "length cs = 7" by (simp add: cs levels_def)
  ultimately show ?thesis using tr by (simp add: levels_def)
qed

theorem seven_levels_in_order_witness:
  "setupCores (sampleEnv PerIteration os_present) sampleCfg []
     = (Inr (map (coreFor (sampleEnv PerIteration os_present) sampleCfg (chosenEncoder sampleCfg)) levels),
        map (openCall (sampleEnv PerIteration os_present) sampleCfg) levels) \<and>
   levels = [DebugLevel, InfoLevel, WarnLevel, ErrorLevel, DPanicLevel, PanicLevel, FatalLevel] \<and>
   map out (map (coreFor (sampleEnv PerIteration os_present) sampleCfg (chosenEncoder sampleCfg)) levels)
     = map (sinkOf (sampleEnv PerIteration os_present) sampleCfg) levels \<and>
   length (map (coreFor (sampleEnv PerIteration os_present) sampleCfg (chosenEncoder sampleCfg)) levels) = 7"
proof -
  have h: "setupCores (sampleEnv PerIteration os_present) sampleCfg []
     = (Inr (map (coreFor (sampleEnv PerIteration os_present) sampleCfg (chosenEncoder sampleCfg)) levels),
        [] @ map (openCall (sampleEnv PerIteration os_present) sampleCfg) levels)"
    by (rule setupCores_success[OF sample_opens])
  from seven_levels_in_order[OF h] h show ?thesis by simp
qed

section \<open>Failure of a sink\<close>

text \<open>
  C3. Let the directory step pass (the directory is there, or it was made), let the log
  files of the levels \<open>pre\<close> open, and let the open for the next level \<open>l\<close> fail with
  \<open>oe\<close>. Then \<open>initLogger\<close> returns the error for \<open>l\<close>, the trace ends with the failed
  call, so no later level is tried, and \<open>sugaredLogger\<close> is the one from before.
\<close>

theorem sink_failure_aborts:
  assumes "levels = pre @ l # post"
    and "os e (trace st) (Stat (Director cfg)) = None \<and> tr2 = trace st @ [Stat (Director cfg)]
       \<or> os e (trace st) (Stat (Director cfg)) \<noteq> None
         \<and> os e (trace st @ [Stat (Director cfg), createMsg cfg]) (Mkdir (Director cfg) ModePerm) = None
         \<and> tr2 = trace st @ [Stat (Director cfg), createMsg cfg, Mkdir (Director cfg) ModePerm]"
    and "opensSucceed e cfg tr2 pre"
    and "os e (tr2 @ map (openCall e cfg) pre) (openCall e cfg l) = Some oe"
  shows "initLogger e cfg st =
           (Some (FailedToCreateLogFile (Level_String l) oe),
            st\<lparr>trace := tr2 @ map (openCall e cfg) pre @ [openCall e cfg l]\<rparr>)
       \<and> sugaredLogger (snd (initLogger e cfg st)) = sugaredLogger st"
proof -
  have i: "initLogger e cfg st = install e cfg st tr2"
    using assms(2) initLogger_present[of e st cfg] initLogger_absent[of e st cfg]
    by (auto split: option.splits)
  have "setupCores e cfg tr2 =
     (Inl (FailedToCreateLogFile (Level_String l) oe), tr2 @ map (openCall e cfg) (pre @ [l]))"
    by (rule setupCores_failure[OF assms(1) assms(3) assms(4)])
  then have "install e cfg st tr2 = (Some (FailedToCreateLogFile (Level_String l) oe),
            st\<lparr>trace := tr2 @ map (openCall e cfg) pre @ [openCall e cfg l]\<rparr>)"
    by (simp add: install_def)
  with i show ?thesis by simp
qed

theorem sink_failure_aborts_witness:
  "levels = [DebugLevel, InfoLevel] @ WarnLevel # [ErrorLevel, DPanicLevel, PanicLevel, FatalLevel] \<and>
   os (sampleEnv PerIteration os_no_warn) [] (Stat ''logs'') = None \<and>
   opensSucceed (sampleEnv PerIteration os_no_warn) sampleCfg [Stat ''logs''] [DebugLevel, InfoLevel] \<and>
   os (sampleEnv PerIteration os_no_warn)
     [Stat ''logs'', OpenFile ''logs/debug.log'' {O_APPEND, O_CREATE, O_WRONLY} 420,
      OpenFile ''logs/info.log'' {O_APPEND, O_CREATE, O_WRONLY} 420]
     (OpenFile ''logs/warn.log'' {O_APPEND, O_CREATE, O_WRONLY} 420) = Some ErrPermission \<and>
   initLogger (sampleEnv PerIteration os_no_warn) sampleCfg \<lparr>trace = [], sugaredLogger = Some oldLogger\<rparr> =
     (Some (FailedToCreateLogFile ''warn'' ErrPermission),
      \<lparr>trace = [Stat ''logs'', OpenFile ''logs/debug.log'' {O_APPEND, O_CREATE, O_WRONLY} 420,
          OpenFile ''logs/info.log'' {O_APPEND, O_CREATE, O_WRONLY} 420,
          OpenFile ''logs/warn.log'' {O_APPEND, O_CREATE, O_WRONLY} 420],
        sugaredLogger = Some oldLogger\<rparr>)"
proof -
  let ?e = "sampleEnv PerIteration os_no_warn"
  let ?st = "\<lparr>trace = [], sugaredLogger = Some oldLogger\<rparr>"
  have d: "Director sampleCfg = ''logs''" by (simp add: sampleCfg_def)
  have h1: "levels = [DebugLevel, InfoLevel] @ WarnLevel # [ErrorLevel, DPanicLevel, PanicLevel, FatalLevel]"
    by (simp add: levels_def)
  have h2: "os ?e (trace ?st) (Stat (Director sampleCfg)) = None \<and> [Stat ''logs''] = trace ?st @ [Stat (Director sampleCfg)]
       \<or> os ?e (trace ?st) (Stat (Director sampleCfg)) \<noteq> None
         \<and> os ?e (trace ?st @ [Stat (Director sampleCfg), createMsg sampleCfg]) (Mkdir (Director sampleCfg) ModePerm) = None
         \<and> [Stat ''logs''] = trace ?st @ [Stat (Director sampleCfg), createMsg sampleCfg, Mkdir (Director sampleCfg) ModePerm]"
    by (simp add: sampleEnv_def d)
  have h3: "opensSucceed ?e sampleCfg [Stat ''logs''] [DebugLevel, InfoLevel]"
    by (simp add: sampleEnv_def openCall_def logPath_def d unixJoin_def)
  have h4: "os ?e ([Stat ''logs''] @ map (openCall ?e sampleCfg) [DebugLevel, InfoLevel]) (openCall ?e sampleCfg WarnLevel) = Some ErrPermission"
    by (simp add: sampleEnv_def openCall_def logPath_def d unixJoin_def)
  from sink_failure_aborts[OF h1 h2 h3 h4] h1 h2 h3 h4 show ?thesis
    by (simp add: sampleEnv_def openCall_def logPath_def d unixJoin_def)
qed

section \<open>The directory\<close>

text \<open>
  C5. If \<open>Stat\<close> reports that the directory does not exist, \<open>initLogger\<close> calls \<open>Mkdir\<close>
  on the configured path once, with \<open>ModePerm\<close>, and makes no other \<open>Mkdir\<close> call; if that
  call fails, \<open>initLogger\<close> returns its error and makes no further call. If \<open>Stat\<close>
  succeeds, \<open>initLogger\<close> makes no \<open>Mkdir\<close> call at all.
\<close>

theorem directory_handling:
  "(os e (trace st) (Stat (Director cfg)) = Some ErrNotExist \<longrightarrow>
      (\<exists>rest. trace (snd (initLogger e cfg st))
                = trace st @ [Stat (Director cfg), createMsg cfg, Mkdir (Director cfg) ModePerm] @ rest
             \<and> filter isMkdir rest = [])
      \<and> (\<forall>oe. os e (trace st @ [Stat (Director cfg), createMsg cfg]) (Mkdir (Director cfg) ModePerm) = Some oe
            \<longrightarrow> initLogger e cfg st =
                  (Some (FailedToCreateDirectory (Director cfg) oe),
                   st\<lparr>trace := trace st @ [Stat (Director cfg), createMsg cfg, Mkdir (Director cfg) ModePerm]\<rparr>)))
   \<and> (os e (trace st) (Stat (Director cfg)) = None \<longrightarrow>
      (\<exists>rest. trace (snd (initLogger e cfg st)) = trace st @ [Stat (Director cfg)] @ rest
             \<and> filter isMkdir rest = []))"
proof (intro conjI impI allI)
  assume a: "os e (trace st) (Stat (Director cfg)) = Some ErrNotExist"
  let ?tr3 = "trace st @ [Stat (Director cfg), createMsg cfg, Mkdir (Director cfg) ModePerm]"
  show "\<exists>rest. trace (snd (initLogger e cfg st))
                = trace st @ [Stat (Director cfg), createMsg cfg, Mkdir (Director cfg) ModePerm] @ rest
             \<and> filter isMkdir rest = []"
  proof (cases "os e (trace st @ [Stat (Director cfg), createMsg cfg]) (Mkdir (Director cfg) ModePerm)")
    case None
    then have "initLogger e cfg st = install e cfg st ?tr3"
      using initLogger_absent[OF a] by simp
    then show ?thesis using install_rest[of e cfg st ?tr3] by simp
  next
    case (Some oe)
    then have "trace (snd (initLogger e cfg st))
        = trace st @ [Stat (Director cfg), createMsg cfg, Mkdir (Director cfg) ModePerm] @ []"
      using initLogger_absent[OF a] by simp
    then show ?thesis by (metis filter.simps(1))
  qed
next
  fix oe
  assume a: "os e (trace st) (Stat (Director cfg)) = Some ErrNotExist"
    and b: "os e (trace st @ [Stat (Director cfg), createMsg cfg]) (Mkdir (Director cfg) ModePerm) = Some oe"
  show "initLogger e cfg st =
                  (Some (FailedToCreateDirectory (Director cfg) oe),
                   st\<lparr>trace := trace st @ [Stat (Director cfg), createMsg cfg, Mkdir (Director cfg) ModePerm]\<rparr>)"
    using initLogger_absent[OF a] b by simp
next
  assume a: "os e (trace st) (Stat (Director cfg)) = None"
  from install_rest[of e cfg st "trace st @ [Stat (Director cfg)]"] initLogger_present[OF a]
  show "\<exists>rest. trace (snd (initLogger e cfg st)) = trace st @ [Stat (Director cfg)] @ rest
             \<and> filter isMkdir rest = []"
    by simp
qed

theorem directory_handling_witness:
  "os (sampleEnv PerIteration os_absent) (trace sampleState) (Stat (Director sampleCfg)) = Some ErrNotExist \<and>
   filter isMkdir (trace (snd (initLogger (sampleEnv PerIteration os_absent) sampleCfg sampleState)))
     = [Mkdir ''logs'' 511] \<and>
   os (sampleEnv PerIteration os_no_mkdir) (trace sampleState) (Stat (Director sampleCfg)) = Some ErrNotExist \<and>
   os (sampleEnv PerIteration os_no_mkdir) (trace sampleState @ [Stat (Director sampleCfg), createMsg sampleCfg])
      (Mkdir (Director sampleCfg) ModePerm) = Some ErrPermission \<and>
   initLogger (sampleEnv PerIteration os_no_mkdir) sampleCfg sampleState =
     (Some (FailedToCreateDirectory ''logs'' ErrPermission),
      \<lparr>trace = [Stat ''logs'', Printf (''create logs directory'' @ [CHR 0x0A]), Mkdir ''logs'' 511],
        sugaredLogger = None\<rparr>) \<and>
   os (sampleEnv PerIteration os_present) (trace sampleState) (Stat (Director sampleCfg)) = None \<and>
   filter isMkdir (trace (snd (initLogger (sampleEnv PerIteration os_present) sampleCfg sampleState))) = []"
proof -
  have d: "Director sampleCfg = ''logs''" by (simp add: sampleCfg_def)
  have a1: "os (sampleEnv PerIteration os_absent) (trace sampleState) (Stat (Director sampleCfg)) = Some ErrNotExist"
    by (simp add: sampleEnv_def)
  have a2: "os (sampleEnv PerIteration os_no_mkdir) (trace sampleState) (Stat (Director sampleCfg)) = Some ErrNotExist"
    by (simp add: sampleEnv_def)
  have a3: "os (sampleEnv PerIteration os_no_mkdir) (trace sampleState @ [Stat (Director sampleCfg), createMsg sampleCfg])
      (Mkdir (Director sampleCfg) ModePerm) = Some ErrPermission"
    by (simp add: sampleEnv_def)
  have a4: "os (sampleEnv PerIteration os_present) (trace sampleState) (Stat (Director sampleCfg)) = None"
    by (simp add: sampleEnv_def)
  from directory_handling[of "sampleEnv PerIteration os_absent" sampleState sampleCfg] a1
  have c1: "filter isMkdir (trace (snd (initLogger (sampleEnv PerIteration os_absent) sampleCfg sampleState)))
     = [Mkdir ''logs'' 511]"
    by (auto simp add: isMkdir_def createMsg_def d ModePerm_def sampleState_def)
  from directory_handling[of "sampleEnv PerIteration os_no_mkdir" sampleState sampleCfg] a2 a3
  have c2: "initLogger (sampleEnv PerIteration os_no_mkdir) sampleCfg sampleState =
     (Some (FailedToCreateDirectory ''logs'' ErrPermission),
      \<lparr>trace = [Stat ''logs'', Printf (''create logs directory'' @ [CHR 0x0A]), Mkdir ''logs'' 511],
        sugaredLogger = None\<rparr>)"
    by (simp add: createMsg_def d ModePerm_def sampleState_def)
  from directory_handling[of "sampleEnv PerIteration os_present" sampleState sampleCfg] a4
  have c3: "filter isMkdir (trace (snd (initLogger (sampleEnv PerIteration os_present) sampleCfg sampleState))) = []"
    by (auto simp add: isMkdir_def d sampleState_def)
  from a1 a2 a3 a4 c1 c2 c3 show ?thesis by blast
qed

section \<open>Fallbacks of the encoding\<close>

text \<open>
  C6. Without the custom flag, a value of \<open>EncodeLevel\<close> that is none of the four names
  gives the uppercase level encoder; a value of \<open>Format\<close> other than \<open>json\<close> gives
  every core the console encoder. Neither value makes the build fail: whenever the seven
  log files open, \<open>setupCores\<close> returns seven cores, each with the console encoder in the
  one case and each rendering a level as its uppercase name in the other.
\<close>

theorem encoding_fallbacks:
  "(\<not> CustomLevelEncoder cfg \<and>
      EncodeLevel cfg \<notin> {''lowercase'', ''capital'', ''lowercaseColor'', ''capitalColor''}
      \<longrightarrow> LevelEncoder cfg = CapitalLevelEncoder
          \<and> renderLevel (EncodeLevel_enc (EncoderConfig cfg)) l = Level_CapitalString l)
   \<and> (Format cfg \<noteq> ''json'' \<and> setupCores e cfg tr = (Inr cs, tr')
      \<longrightarrow> cs \<noteq> [] \<and> (\<forall>c\<in>set cs. enc c = NewConsoleEncoder (EncoderConfig cfg)))
   \<and> (Format cfg \<noteq> ''json'' \<and> opensSucceed e cfg tr levels
      \<longrightarrow> (\<exists>cs'. setupCores e cfg tr = (Inr cs', tr @ map (openCall e cfg) levels)
              \<and> length cs' = 7
              \<and> (\<forall>c\<in>set cs'. enc c = NewConsoleEncoder (EncoderConfig cfg))))
   \<and> (\<not> CustomLevelEncoder cfg \<and>
      EncodeLevel cfg \<notin> {''lowercase'', ''capital'', ''lowercaseColor'', ''capitalColor''} \<and>
      opensSucceed e cfg tr levels
      \<longrightarrow> (\<exists>cs'. setupCores e cfg tr = (Inr cs', tr @ map (openCall e cfg) levels)
              \<and> length cs' = 7
              \<and> (\<forall>c\<in>set cs'. \<forall>lvl.
                    renderLevel (EncodeLevel_enc (encoderConfigOf (enc c))) lvl
                      = Level_CapitalString lvl)))"
proof (intro conjI impI)
  assume a: "\<not> CustomLevelEncoder cfg \<and>
      EncodeLevel cfg \<notin> {''lowercase'', ''capital'', ''lowercaseColor'', ''capitalColor''}"
  then show "LevelEncoder cfg = CapitalLevelEncoder" by (simp add: LevelEncoder_def)
  then show "renderLevel (EncodeLevel_enc (EncoderConfig cfg)) l = Level_CapitalString l"
    by (simp add: EncoderConfig_def)
next
  assume b: "Format cfg \<noteq> ''json'' \<and> setupCores e cfg tr = (Inr cs, tr')"
  then have cs: "cs = map (coreFor e cfg (chosenEncoder cfg)) levels"
    using setupCores_Inr[of e cfg tr cs tr'] by simp
  show "cs \<noteq> []" by (simp add: cs levels_def)
  show "\<forall>c\<in>set cs. enc c = NewConsoleEncoder (EncoderConfig cfg)"
    using b by (auto simp add: cs coreFor_def NewCore_def chosenEncoder_def)
next
  assume c: "Format cfg \<noteq> ''json'' \<and> opensSucceed e cfg tr levels"
  let ?cs = "map (coreFor e cfg (chosenEncoder cfg)) levels"
  have s: "setupCores e cfg tr = (Inr ?cs, tr @ map (openCall e cfg) levels)"
    using c by (intro setupCores_success) simp
  have n: "length ?cs = 7" by (simp add: levels_def)
  have k: "\<forall>c\<in>set ?cs. enc c = NewConsoleEncoder (EncoderConfig cfg)"
    using c by (auto simp add: coreFor_def NewCore_def chosenEncoder_def)
  from s n k show "\<exists>cs'. setupCores e cfg tr = (Inr cs', tr @ map (openCall e cfg) levels)
              \<and> length cs' = 7
              \<and> (\<forall>c\<in>set cs'. enc c = NewConsoleEncoder (EncoderConfig cfg))"
    by blast
next
  assume d: "\<not> CustomLevelEncoder cfg \<and>
      EncodeLevel cfg \<notin> {''lowercase'', ''capital'', ''lowercaseColor'', ''capitalColor''} \<and>
      opensSucceed e cfg tr levels"
  let ?cs = "map (coreFor e cfg (chosenEncoder cfg)) levels"
  have s: "setupCores e cfg tr = (Inr ?cs, tr @ map (openCall e cfg) levels)"
    using d by (intro setupCores_success) simp
  have n: "length ?cs = 7" by (simp add: levels_def)
  have le: "LevelEncoder cfg = CapitalLevelEncoder" using d by (simp add: LevelEncoder_def)
  have k: "\<forall>c\<in>set ?cs. \<forall>lvl.
             renderLevel (EncodeLevel_enc (encoderConfigOf (enc c))) lvl = Level_CapitalString lvl"
    by (auto simp add: coreFor_def NewCore_def chosenEncoder_def EncoderConfig_def le)
  from s n k show "\<exists>cs'. setupCores e cfg tr = (Inr cs', tr @ map (openCall e cfg) levels)
              \<and> length cs' = 7
              \<and> (\<forall>c\<in>set cs'. \<forall>lvl.
                    renderLevel (EncodeLevel_enc (encoderConfigOf (enc c))) lvl
                      = Level_CapitalString lvl)"
    by blast
qed

theorem encoding_fallbacks_witness:
  "\<not> CustomLevelEncoder (sampleCfg\<lparr>CustomLevelEncoder := False, EncodeLevel := ''rainbow'', Format := ''xml''\<rparr>) \<and>
   EncodeLevel (sampleCfg\<lparr>CustomLevelEncoder := False, EncodeLevel := ''rainbow'', Format := ''xml''\<rparr>)
     \<notin> {''lowercase'', ''capital'', ''lowercaseColor'', ''capitalColor''} \<and>
   Format (sampleCfg\<lparr>CustomLevelEncoder := False, EncodeLevel := ''rainbow'', Format := ''xml''\<rparr>) \<noteq> ''json'' \<and>
   opensSucceed (sampleEnv PerIteration os_present)
     (sampleCfg\<lparr>CustomLevelEncoder := False, EncodeLevel := ''rainbow'', Format := ''xml''\<rparr>) [] levels \<and>
   LevelEncoder (sampleCfg\<lparr>CustomLevelEncoder := False, EncodeLevel := ''rainbow'', Format := ''xml''\<rparr>)
     = CapitalLevelEncoder \<and>
   \<not> isl (fst (setupCores (sampleEnv PerIteration os_present)
     (sampleCfg\<lparr>CustomLevelEncoder := False, EncodeLevel := ''rainbow'', Format := ''xml''\<rparr>) [])) \<and>
   length (projr (fst (setupCores (sampleEnv PerIteration os_present)
     (sampleCfg\<lparr>CustomLevelEncoder := False, EncodeLevel := ''rainbow'', Format := ''xml''\<rparr>) []))) = 7 \<and>
   list_all (\<lambda>c. enc c = NewConsoleEncoder (EncoderConfig
        (sampleCfg\<lparr>CustomLevelEncoder := False, EncodeLevel := ''rainbow'', Format := ''xml''\<rparr>))
      \<and> renderLevel (EncodeLevel_enc (encoderConfigOf (enc c))) InfoLevel = ''INFO'')
     (projr (fst (setupCores (sampleEnv PerIteration os_present)
        (sampleCfg\<lparr>CustomLevelEncoder := False, EncodeLevel := ''rainbow'', Format := ''xml''\<rparr>) [])))"
proof -
  let ?c = "sampleCfg\<lparr>CustomLevelEncoder := False, EncodeLevel := ''rainbow'', Format := ''xml''\<rparr>"
  let ?e = "sampleEnv PerIteration os_present"
  have h1: "\<not> CustomLevelEncoder ?c \<and>
      EncodeLevel ?c \<notin> {''lowercase'', ''capital'', ''lowercaseColor'', ''capitalColor''}"
    by simp
  have h2: "Format ?c \<noteq> ''json''" by simp
  have o: "opensSucceed ?e ?c [] levels" by (rule sample_opens)
  note t = encoding_fallbacks[of ?c InfoLevel ?e "[]" "[]" "[]"]
  from t h1 have le: "LevelEncoder ?c = CapitalLevelEncoder" by blast
  from t h2 o obtain cs1 where
    s1: "setupCores ?e ?c [] = (Inr cs1, [] @ map (openCall ?e ?c) levels)"
    and n1: "length cs1 = 7"
    and k1: "\<forall>c\<in>set cs1. enc c = NewConsoleEncoder (EncoderConfig ?c)"
    by blast
  from t h1 o obtain cs2 where
    s2: "setupCores ?e ?c [] = (Inr cs2, [] @ map (openCall ?e ?c) levels)"
    and k2: "\<forall>c\<in>set cs2. \<forall>lvl.
               renderLevel (EncodeLevel_enc (encoderConfigOf (enc c))) lvl = Level_CapitalString lvl"
    by blast
  from s1 s2 have eq: "cs2 = cs1" by simp
  have p: "projr (fst (setupCores ?e ?c [])) = cs1" "\<not> isl (fst (setupCores ?e ?c []))"
    by (simp_all add: s1)
  have la: "list_all (\<lambda>c. enc c = NewConsoleEncoder (EncoderConfig ?c)
      \<and> renderLevel (EncodeLevel_enc (encoderConfigOf (enc c))) InfoLevel = ''INFO'') cs1"
    using k1 k2 eq by (simp add: list_all_iff)
  show ?thesis unfolding p(1) using h1 h2 o le n1 la p(2) by simp
qed

section \<open>The sinks\<close>

text \<open>
  C7. Whatever \<open>setupCores\<close> returns, the calls it has made are \<open>OpenFile\<close> calls for
  the first levels of \<open>levels\<close>, in order, each on the join of the configured directory
  and the lowercase level name followed by \<open>.log\<close>, with the flags
  \<open>O_APPEND|O_CREATE|O_WRONLY\<close> and the permission \<open>0644\<close>; when it succeeds there is one
  call and one sink for every level. \<open>O_TRUNC\<close> is not among the flags.
\<close>

theorem sink_open_mode:
  assumes "setupCores e cfg tr = (r, tr')"
  shows "(\<exists>n\<le>length levels.
           tr' = tr @ map (\<lambda>l. OpenFile (filepath_Join e (Director cfg) (Level_String l @ ''.log''))
                                  {O_APPEND, O_CREATE, O_WRONLY} 420) (take n levels)
         \<and> (\<forall>cs. r = Inr cs \<longrightarrow> n = length levels
              \<and> map out cs = map (\<lambda>l. AddSync (Opened (filepath_Join e (Director cfg) (Level_String l @ ''.log''))
                                  {O_APPEND, O_CREATE, O_WRONLY} 420)) levels))
       \<and> O_TRUNC \<notin> {O_APPEND, O_CREATE, O_WRONLY}
       \<and> map Level_String levels = [''debug'', ''info'', ''warn'', ''error'', ''dpanic'', ''panic'', ''fatal'']"
proof -
  have A: "\<exists>n\<le>length levels.
           tr' = tr @ map (openCall e cfg) (take n levels)
         \<and> (\<forall>cs. r = Inr cs \<longrightarrow> n = length levels \<and> map out cs = map (sinkOf e cfg) levels)"
  proof (cases r)
    case (Inl err)
    with assms setupCores_Inl[of e cfg tr err tr'] obtain pre l post where
      p: "levels = pre @ l # post" "tr' = tr @ map (openCall e cfg) (pre @ [l])" by blast
    have "take (Suc (length pre)) (pre @ l # post) = pre @ [l]" by simp
    then have t: "take (Suc (length pre)) levels = pre @ [l]" by (simp only: p(1))
    have "Suc (length pre) \<le> length (pre @ l # post)" by simp
    then have n: "Suc (length pre) \<le> length levels" by (simp only: p(1))
    have "tr' = tr @ map (openCall e cfg) (take (Suc (length pre)) levels)
         \<and> (\<forall>cs. r = Inr cs \<longrightarrow> Suc (length pre) = length levels \<and> map out cs = map (sinkOf e cfg) levels)"
      using p(2) t Inl by simp
    with n show ?thesis by blast
  next
    case (Inr cs)
    with assms setupCores_Inr[of e cfg tr cs tr'] have
      c: "cs = map (coreFor e cfg (chosenEncoder cfg)) levels" and
      t: "tr' = tr @ map (openCall e cfg) levels" by simp_all
    have "map out cs = map (sinkOf e cfg) levels" by (simp add: c coreFor_def NewCore_def)
    then have "tr' = tr @ map (openCall e cfg) (take (length levels) levels)
         \<and> (\<forall>cs'. r = Inr cs' \<longrightarrow> length levels = length levels \<and> map out cs' = map (sinkOf e cfg) levels)"
      using t Inr by simp
    then show ?thesis by blast
  qed
  have B: "O_TRUNC \<notin> {O_APPEND, O_CREATE, O_WRONLY}" by simp
  have C: "map Level_String levels = [''debug'', ''info'', ''warn'', ''error'', ''dpanic'', ''panic'', ''fatal'']"
    by (simp add: levels_def)
  from A have A': "\<exists>n\<le>length levels.
           tr' = tr @ map (\<lambda>l. OpenFile (filepath_Join e (Director cfg) (Level_String l @ ''.log''))
                                  {O_APPEND, O_CREATE, O_WRONLY} 420) (take n levels)
         \<and> (\<forall>cs. r = Inr cs \<longrightarrow> n = length levels
              \<and> map out cs = map (\<lambda>l. AddSync (Opened (filepath_Join e (Director cfg) (Level_String l @ ''.log''))
                                  {O_APPEND, O_CREATE, O_WRONLY} 420)) levels)"
    by (simp only: openCall_fun sinkOf_fun)
  from A' B C show ?thesis by blast
qed

theorem sink_open_mode_witness:
  "setupCores (sampleEnv PerIteration os_no_warn) sampleCfg [] =
     (Inl (FailedToCreateLogFile ''warn'' ErrPermission),
      [OpenFile ''logs/debug.log'' {O_APPEND, O_CREATE, O_WRONLY} 420,
       OpenFile ''logs/info.log'' {O_APPEND, O_CREATE, O_WRONLY} 420,
       OpenFile ''logs/warn.log'' {O_APPEND, O_CREATE, O_WRONLY} 420]) \<and>
   (\<exists>n\<le>length levels.
      [OpenFile ''logs/debug.log'' {O_APPEND, O_CREATE, O_WRONLY} 420,
       OpenFile ''logs/info.log'' {O_APPEND, O_CREATE, O_WRONLY} 420,
       OpenFile ''logs/warn.log'' {O_APPEND, O_CREATE, O_WRONLY} 420]
      = [] @ map (\<lambda>l. OpenFile (filepath_Join (sampleEnv PerIteration os_no_warn) (Director sampleCfg)
                                   (Level_String l @ ''.log''))
                                  {O_APPEND, O_CREATE, O_WRONLY} 420) (take n levels))"
proof -
  let ?e = "sampleEnv PerIteration os_no_warn"
  have d: "Director sampleCfg = ''logs''" by (simp add: sampleCfg_def)
  have h1: "levels = [DebugLevel, InfoLevel] @ WarnLevel # [ErrorLevel, DPanicLevel, PanicLevel, FatalLevel]"
    by (simp add: levels_def)
  have h3: "opensSucceed ?e sampleCfg [] [DebugLevel, InfoLevel]"
    by (simp add: sampleEnv_def openCall_def logPath_def d unixJoin_def)
  have h4: "os ?e ([] @ map (openCall ?e sampleCfg) [DebugLevel, InfoLevel]) (openCall ?e sampleCfg WarnLevel) = Some ErrPermission"
    by (simp add: sampleEnv_def openCall_def logPath_def d unixJoin_def)
  have s: "setupCores ?e sampleCfg [] =
     (Inl (FailedToCreateLogFile ''warn'' ErrPermission),
      [OpenFile ''logs/debug.log'' {O_APPEND, O_CREATE, O_WRONLY} 420,
       OpenFile ''logs/info.log'' {O_APPEND, O_CREATE, O_WRONLY} 420,
       OpenFile ''logs/warn.log'' {O_APPEND, O_CREATE, O_WRONLY} 420])"
    using setupCores_failure[OF h1 h3 h4]
    by (simp add: sampleEnv_def openCall_def logPath_def d unixJoin_def)
  from sink_open_mode[OF s] s show ?thesis by blast
qed

section \<open>The caller\<close>

text \<open>
  C8, as the specification states it, fails: \<open>ShowLine\<close> is false in the sample
  configuration and every core of the logger that \<open>initLogger\<close> installs renders the
  caller.
\<close>

theorem show_line_counterexample:
  "\<not> ShowLine sampleCfg \<and>
   fst (initLogger (sampleEnv PerIteration os_present) sampleCfg sampleState) = None \<and>
   callerRendered (snd (initLogger (sampleEnv PerIteration os_present) sampleCfg sampleState))"
proof -
  let ?e = "sampleEnv PerIteration os_present"
  have h1: "fst (initLogger ?e sampleCfg sampleState) = None"
    by (simp add: initLogger_present sampleEnv_def install_def
          setupCores_success[OF sample_opens, unfolded sampleEnv_def])
  then have h: "initLogger ?e sampleCfg sampleState = (None, snd (initLogger ?e sampleCfg sampleState))"
    by (metis prod.collapse)
  have "callerRendered (snd (initLogger ?e sampleCfg sampleState))"
    by (simp add: callerRendered_def initLogger_installed[OF h] zap_New_def NewTee_def levels_def
          rendersCaller_def coreFor_def NewCore_def chosenEncoder_def EncoderConfig_def)
  moreover have "\<not> ShowLine sampleCfg" by (simp add: sampleCfg_def)
  ultimately show ?thesis using h1 by simp
qed

text \<open>
  C8, amended. The caller, in the short form, is rendered in every record whatever
  \<open>ShowLine\<close> is: \<open>initLogger\<close> passes \<open>AddCaller\<close> unconditionally, every encoder has the
  caller key \<open>caller\<close> and the short caller encoder, and \<open>initLogger\<close> does the same for
  either value of \<open>ShowLine\<close>.
\<close>

theorem caller_always_rendered:
  assumes "initLogger e cfg st = (None, st')"
  shows "callerRendered st'
     \<and> initLogger e (cfg\<lparr>ShowLine := b\<rparr>) st = initLogger e cfg st
     \<and> (\<exists>s. sugaredLogger st' = Some s \<and> addCaller (base s)
            \<and> (\<forall>c\<in>set (core (base s)).
                  CallerKey (encoderConfigOf (enc c)) = ''caller''
                  \<and> EncodeCaller (encoderConfigOf (enc c)) = ShortCallerEncoder))"
proof -
  let ?lg = "zap_New (NewTee (map (coreFor e cfg (chosenEncoder cfg)) levels)) [AddCaller]"
  have i: "sugaredLogger st' = Some (Sugar ?lg)" by (rule initLogger_installed[OF assms])
  have c: "core ?lg = map (coreFor e cfg (chosenEncoder cfg)) levels"
    by (simp add: zap_New_def NewTee_def)
  have a: "addCaller ?lg" by (simp add: zap_New_def)
  have "\<forall>c\<in>set (map (coreFor e cfg (chosenEncoder cfg)) levels).
             CallerKey (encoderConfigOf (enc c)) = ''caller''
           \<and> EncodeCaller (encoderConfigOf (enc c)) = ShortCallerEncoder"
    by (auto simp add: coreFor_def NewCore_def chosenEncoder_def EncoderConfig_def)
  then have k: "\<forall>c\<in>set (core ?lg). CallerKey (encoderConfigOf (enc c)) = ''caller''
                  \<and> EncodeCaller (encoderConfigOf (enc c)) = ShortCallerEncoder"
    by (simp only: c)
  have n: "core ?lg \<noteq> []" by (simp add: zap_New_def NewTee_def levels_def)
  have 1: "callerRendered st'"
    using a k n by (simp add: callerRendered_def i rendersCaller_def list_all_iff)
  have 2: "initLogger e (cfg\<lparr>ShowLine := b\<rparr>) st = initLogger e cfg st"
    by (rule initLogger_cfg_cong) simp_all
  have 3: "\<exists>s. sugaredLogger st' = Some s \<and> addCaller (base s)
            \<and> (\<forall>c\<in>set (core (base s)).
                  CallerKey (encoderConfigOf (enc c)) = ''caller''
                  \<and> EncodeCaller (encoderConfigOf (enc c)) = ShortCallerEncoder)"
    using i a k by simp
  from 1 2 3 show ?thesis by blast
qed

theorem caller_always_rendered_witness:
  "fst (initLogger (sampleEnv PerIteration os_present) sampleCfg sampleState) = None \<and>
   callerRendered (snd (initLogger (sampleEnv PerIteration os_present) sampleCfg sampleState)) \<and>
   initLogger (sampleEnv PerIteration os_present) (sampleCfg\<lparr>ShowLine := True\<rparr>) sampleState
     = initLogger (sampleEnv PerIteration os_present) sampleCfg sampleState"
proof -
  let ?e = "sampleEnv PerIteration os_present"
  have h1: "fst (initLogger ?e sampleCfg sampleState) = None"
    by (simp add: initLogger_present sampleEnv_def install_def
          setupCores_success[OF sample_opens, unfolded sampleEnv_def])
  then have h: "initLogger ?e sampleCfg sampleState = (None, snd (initLogger ?e sampleCfg sampleState))"
    by (metis prod.collapse)
  from caller_always_rendered[OF h, of True] h1 show ?thesis by blast
qed

section \<open>Fields that are not read\<close>

text \<open>
  C9. Two configurations that agree on \<open>Format\<close>, \<open>Director\<close>, \<open>EncodeLevel\<close>,
  \<open>StacktraceKey\<close>, \<open>ShowLine\<close> and \<open>CustomLevelEncoder\<close>, so that they differ at most in
  \<open>Level\<close>, \<open>Prefix\<close>, \<open>LogInConsole\<close> and \<open>RetentionDay\<close>, make \<open>initLogger\<close> return the
  same result, the same trace of calls and the same logger; and the sinks of an
  installed logger are the seven log files, never standard output or standard error.
\<close>

theorem unused_fields_noninterference:
  assumes "Format c1 = Format c2" and "Director c1 = Director c2"
    and "EncodeLevel c1 = EncodeLevel c2" and "StacktraceKey c1 = StacktraceKey c2"
    and "ShowLine c1 = ShowLine c2" and "CustomLevelEncoder c1 = CustomLevelEncoder c2"
  shows "initLogger e c1 st = initLogger e c2 st
     \<and> (\<forall>st'. initLogger e c1 st = (None, st') \<longrightarrow>
          (\<exists>s. sugaredLogger st' = Some s
              \<and> map out (core (base s)) = map (sinkOf e c1) levels
              \<and> AddSync Stdout \<notin> set (map out (core (base s)))
              \<and> AddSync Stderr \<notin> set (map out (core (base s)))))"
proof (intro conjI allI impI)
  show "initLogger e c1 st = initLogger e c2 st"
    by (rule initLogger_cfg_cong[OF assms(1) assms(2) assms(3) assms(4) assms(6)])
next
  fix st'
  assume h: "initLogger e c1 st = (None, st')"
  let ?lg = "zap_New (NewTee (map (coreFor e c1 (chosenEncoder c1)) levels)) [AddCaller]"
  have i: "sugaredLogger st' = Some (Sugar ?lg)" by (rule initLogger_installed[OF h])
  have m: "map out (core ?lg) = map (sinkOf e c1) levels"
    by (simp add: zap_New_def NewTee_def coreFor_def NewCore_def)
  have "AddSync Stdout \<notin> set (map (sinkOf e c1) levels)"
    and "AddSync Stderr \<notin> set (map (sinkOf e c1) levels)"
    by (auto simp add: sinkOf_def)
  then have "AddSync Stdout \<notin> set (map out (core ?lg))"
    and "AddSync Stderr \<notin> set (map out (core ?lg))"
    using m by auto
  with i m have "sugaredLogger st' = Some (Sugar ?lg)
              \<and> map out (core (base (Sugar ?lg))) = map (sinkOf e c1) levels
              \<and> AddSync Stdout \<notin> set (map out (core (base (Sugar ?lg))))
              \<and> AddSync Stderr \<notin> set (map out (core (base (Sugar ?lg))))"
    by (simp del: set_map)
  then show "\<exists>s. sugaredLogger st' = Some s
              \<and> map out (core (base s)) = map (sinkOf e c1) levels
              \<and> AddSync Stdout \<notin> set (map out (core (base s)))
              \<and> AddSync Stderr \<notin> set (map out (core (base s)))"
    by blast
qed

theorem unused_fields_noninterference_witness:
  "Format sampleCfg = Format (sampleCfg\<lparr>Level := ''error'', Prefix := [], LogInConsole := False, RetentionDay := 30\<rparr>) \<and>
   Director sampleCfg = Director (sampleCfg\<lparr>Level := ''error'', Prefix := [], LogInConsole := False, RetentionDay := 30\<rparr>) \<and>
   EncodeLevel sampleCfg = EncodeLevel (sampleCfg\<lparr>Level := ''error'', Prefix := [], LogInConsole := False, RetentionDay := 30\<rparr>) \<and>
   StacktraceKey sampleCfg = StacktraceKey (sampleCfg\<lparr>Level := ''error'', Prefix := [], LogInConsole := False, RetentionDay := 30\<rparr>) \<and>
   ShowLine sampleCfg = ShowLine (sampleCfg\<lparr>Level := ''error'', Prefix := [], LogInConsole := False, RetentionDay := 30\<rparr>) \<and>
   CustomLevelEncoder sampleCfg = CustomLevelEncoder (sampleCfg\<lparr>Level := ''error'', Prefix := [], LogInConsole := False, RetentionDay := 30\<rparr>) \<and>
   LogInConsole sampleCfg \<and>
   fst (initLogger (sampleEnv PerIteration os_present) sampleCfg sampleState) = None \<and>
   initLogger (sampleEnv PerIteration os_present) sampleCfg sampleState
     = initLogger (sampleEnv PerIteration os_present)
         (sampleCfg\<lparr>Level := ''error'', Prefix := [], LogInConsole := False, RetentionDay := 30\<rparr>) sampleState \<and>
   (\<exists>s. sugaredLogger (snd (initLogger (sampleEnv PerIteration os_present) sampleCfg sampleState)) = Some s
       \<and> map out (core (base s)) = map (sinkOf (sampleEnv PerIteration os_present) sampleCfg) levels
       \<and> AddSync Stdout \<notin> set (map out (core (base s)))
       \<and> AddSync Stderr \<notin> set (map out (core (base s))))"
proof -
  let ?e = "sampleEnv PerIteration os_present"
  let ?c2 = "sampleCfg\<lparr>Level := ''error'', Prefix := [], LogInConsole := False, RetentionDay := 30\<rparr>"
  have a: "Format sampleCfg = Format ?c2" "Director sampleCfg = Director ?c2"
    "EncodeLevel sampleCfg = EncodeLevel ?c2" "StacktraceKey sampleCfg = StacktraceKey ?c2"
    "ShowLine sampleCfg = ShowLine ?c2" "CustomLevelEncoder sampleCfg = CustomLevelEncoder ?c2"
    by simp_all
  have l: "LogInConsole sampleCfg" by (simp add: sampleCfg_def)
  have h1: "fst (initLogger ?e sampleCfg sampleState) = None"
    by (simp add: initLogger_present sampleEnv_def install_def
          setupCores_success[OF sample_opens, unfolded sampleEnv_def])
  then have h: "initLogger ?e sampleCfg sampleState = (None, snd (initLogger ?e sampleCfg sampleState))"
    by (metis prod.collapse)
  from unused_fields_noninterference[OF a, of ?e sampleState] h h1 l a show ?thesis by blast
qed

section \<open>An error of the existence check\<close>

text \<open>
  C10. When \<open>Stat\<close> fails with an error other than not-exist, \<open>pathExists\<close> returns that
  error with \<open>false\<close>, and \<open>initLogger\<close> drops it: it prints the message and calls
  \<open>Mkdir\<close>, its result is the one of \<open>Mkdir\<close> and of the build, and it is the result
  \<open>initLogger\<close> has when \<open>Stat\<close> reports that the directory does not exist.
\<close>

theorem stat_error_discarded:
  assumes "os e (trace st) (Stat (Director cfg)) = Some err" and "\<not> IsNotExist err"
  shows "pathExists e (Director cfg) (trace st) = ((False, Some err), trace st @ [Stat (Director cfg)])
     \<and> initLogger e cfg st =
         (case os e (trace st @ [Stat (Director cfg), createMsg cfg]) (Mkdir (Director cfg) ModePerm) of
            Some oe \<Rightarrow>
              (Some (FailedToCreateDirectory (Director cfg) oe),
               st\<lparr>trace := trace st @ [Stat (Director cfg), createMsg cfg, Mkdir (Director cfg) ModePerm]\<rparr>)
          | None \<Rightarrow>
              install e cfg st
                (trace st @ [Stat (Director cfg), createMsg cfg, Mkdir (Director cfg) ModePerm]))
     \<and> initLogger e cfg st = initLogger (statAbsent e (trace st) (Director cfg)) cfg st"
proof -
  let ?d = "Director cfg"
  let ?e' = "statAbsent e (trace st) ?d"
  let ?tr2 = "trace st @ [Stat ?d, createMsg cfg]"
  let ?tr3 = "trace st @ [Stat ?d, createMsg cfg, Mkdir ?d ModePerm]"
  have 1: "pathExists e ?d (trace st) = ((False, Some err), trace st @ [Stat ?d])"
    using assms by (simp add: pathExists_def sys_def)
  have 2: "initLogger e cfg st =
         (case os e ?tr2 (Mkdir ?d ModePerm) of
            Some oe \<Rightarrow> (Some (FailedToCreateDirectory ?d oe), st\<lparr>trace := ?tr3\<rparr>)
          | None \<Rightarrow> install e cfg st ?tr3)"
    by (rule initLogger_absent[OF assms(1)])
  have s': "os ?e' (trace st) (Stat ?d) = Some ErrNotExist" by (simp add: statAbsent_def)
  have two: "initLogger ?e' cfg st =
         (case os ?e' ?tr2 (Mkdir ?d ModePerm) of
            Some oe \<Rightarrow> (Some (FailedToCreateDirectory ?d oe), st\<lparr>trace := ?tr3\<rparr>)
          | None \<Rightarrow> install ?e' cfg st ?tr3)"
    by (rule initLogger_absent[OF s'])
  have m: "os ?e' ?tr2 (Mkdir ?d ModePerm) = os e ?tr2 (Mkdir ?d ModePerm)"
    by (simp add: statAbsent_def)
  have "os e (?tr3 @ ys) c = os ?e' (?tr3 @ ys) c" for ys c
    by (simp add: statAbsent_def)
  then have "setupCores e cfg ?tr3 = setupCores ?e' cfg ?tr3"
    by (intro setupCores_os_cong) (simp_all add: statAbsent_def)
  then have i: "install e cfg st ?tr3 = install ?e' cfg st ?tr3" by (simp add: install_def)
  have 3: "initLogger e cfg st = initLogger ?e' cfg st"
    by (simp only: 2 two m i)
  from 1 2 3 show ?thesis by blast
qed

theorem stat_error_discarded_witness:
  "os (sampleEnv PerIteration os_no_stat) (trace sampleState) (Stat (Director sampleCfg)) = Some ErrPermission \<and>
   \<not> IsNotExist ErrPermission \<and>
   pathExists (sampleEnv PerIteration os_no_stat) ''logs'' [] = ((False, Some ErrPermission), [Stat ''logs'']) \<and>
   fst (initLogger (sampleEnv PerIteration os_no_stat) sampleCfg sampleState) = None \<and>
   take 3 (trace (snd (initLogger (sampleEnv PerIteration os_no_stat) sampleCfg sampleState)))
     = [Stat ''logs'', Printf (''create logs directory'' @ [CHR 0x0A]), Mkdir ''logs'' 511]"
proof -
  let ?e = "sampleEnv PerIteration os_no_stat"
  have d: "Director sampleCfg = ''logs''" by (simp add: sampleCfg_def)
  have a1: "os ?e (trace sampleState) (Stat (Director sampleCfg)) = Some ErrPermission"
    by (simp add: sampleEnv_def)
  have a2: "\<not> IsNotExist ErrPermission" by (simp add: IsNotExist_def)
  have m: "os ?e (trace sampleState @ [Stat (Director sampleCfg), createMsg sampleCfg])
             (Mkdir (Director sampleCfg) ModePerm) = None"
    by (simp add: sampleEnv_def)
  note t = stat_error_discarded[OF a1 a2]
  from t have p: "pathExists ?e ''logs'' [] = ((False, Some ErrPermission), [Stat ''logs''])"
    by (simp add: d sampleState_def)
  from t m have i: "initLogger ?e sampleCfg sampleState = install ?e sampleCfg sampleState
      (trace sampleState @ [Stat (Director sampleCfg), createMsg sampleCfg, Mkdir (Director sampleCfg) ModePerm])"
    by simp
  have r: "fst (initLogger ?e sampleCfg sampleState) = None"
    unfolding i by (simp add: install_def setupCores_success[OF sample_opens_no_stat])
  have tr: "take 3 (trace (snd (initLogger ?e sampleCfg sampleState)))
     = [Stat ''logs'', Printf (''create logs directory'' @ [CHR 0x0A]), Mkdir ''logs'' 511]"
    unfolding i
    by (simp add: install_def setupCores_success[OF sample_opens_no_stat] sampleState_def d
          createMsg_def ModePerm_def)
  from a1 a2 p r tr show ?thesis by blast
qed

end
